theory Spec2Isabelle
  imports Complex_Main "HOL-Library.Multiset"
begin

section \<open>Data shared by the dashboard code (ui/src/types/bots.ts, constants/botStatus.ts)\<close>

text \<open>
  A TypeScript \<open>number\<close> is modelled as a rational: the properties proved compare
  formulas that the code evaluates with the very same operations, so rounding plays no
  part. An optional
  field (\<open>type?\<close>, \<open>pnl?\<close>) is an \<open>option\<close>, \<open>None\<close> standing for \<open>undefined\<close>.
\<close>

type_synonym number = rat

record Position =
  pos_symbol :: string
  pos_quantity :: number
  pos_price :: number
  pos_side :: string

record BotStatus =
  pnl :: number
  positions :: "Position list"
  balance :: number
  equity :: number

record Trade =
  timestamp :: string
  symbol :: string
  side :: string
  price :: number
  quantity :: number
  trade_type :: "string option"
  trade_pnl :: "number option"

definition POSITION_STATUS_OPEN :: string where "POSITION_STATUS_OPEN = ''open''"
definition POSITION_STATUS_CLOSED :: string where "POSITION_STATUS_CLOSED = ''closed''"
definition POSITION_STATUS_UNKNOWN :: string where "POSITION_STATUS_UNKNOWN = ''unknown''"
definition TRADE_SIDE_BUY :: string where "TRADE_SIDE_BUY = ''buy''"
definition TRADE_SIDE_SELL :: string where "TRADE_SIDE_SELL = ''sell''"
definition TRADE_TYPE_OPEN :: string where "TRADE_TYPE_OPEN = ''open''"
definition TRADE_TYPE_CLOSE :: string where "TRADE_TYPE_CLOSE = ''close''"

section \<open>Trade history pagination (TradesHistory component)\<close>

definition TRADES_PER_PAGE :: int where "TRADES_PER_PAGE = 5"

text \<open>
  \<open>Array.prototype.slice(start, end)\<close>: a negative index counts from the end, both indices
  are clamped to the array, and an empty range gives the empty array.
\<close>

definition js_slice :: "'a list \<Rightarrow> int \<Rightarrow> int \<Rightarrow> 'a list" where
  "js_slice xs start fin =
     (let len = int (length xs);
          k = (if start < 0 then max (len + start) 0 else min start len);
          final = (if fin < 0 then max (len + fin) 0 else min fin len)
      in take (nat (final - k)) (drop (nat k) xs))"

text \<open>
  A comparator result is \<open>None\<close> for \<open>NaN\<close>; \<open>Array.prototype.sort\<close> reads \<open>NaN\<close> as \<open>0\<close>.
\<close>

definition cmp_value :: "int option \<Rightarrow> int" where
  "cmp_value v = (case v of None \<Rightarrow> 0 | Some n \<Rightarrow> n)"

text \<open>
  \<open>Array.prototype.sort(comparefn)\<close> is the platform's, so the sort is an argument of the
  functions that call it. ECMAScript fixes two things about it, which \<open>ecma_sort\<close> states: the
  result is a rearrangement of the array whatever the comparator does; and for a
  comparator that is the difference of a key, which is a consistent comparator, it is
  the array sorted by that key with equal keys in their order of the input (the sort is
  stable). Where the comparator is not consistent the order is left to the engine.
\<close>

type_synonym 'a sort_engine = "('a \<Rightarrow> 'a \<Rightarrow> int option) \<Rightarrow> 'a list \<Rightarrow> 'a list"

definition ecma_sort :: "'a sort_engine \<Rightarrow> bool" where
  "ecma_sort srt =
     (\<forall>cmp xs.
        mset (srt cmp xs) = mset xs
        \<and> (\<forall>k. (\<forall>a\<in>set xs. \<forall>b\<in>set xs. cmp a b = Some (k a - k b))
               \<longrightarrow> srt cmp xs = sort_key k xs))"

text \<open>
  One engine: the sort of V8 (\<open>ArrayTimSort\<close> of \<open>array-sort.tq\<close>) on an array shorter than
  64 elements, where the minimum run length is the length of the array: the leading
  run is counted and, when it descends strictly, reversed (\<open>CountAndMakeRun\<close>), and the
  elements after it are put in place one by one by binary search
  (\<open>BinaryInsertionSort\<close>); nothing is merged.

  \<open>extend_run\<close> is the loop of \<open>CountAndMakeRun\<close> from its third element on: the number of
  further elements that continue the run.
\<close>

fun extend_run :: "('a \<Rightarrow> 'a \<Rightarrow> int option) \<Rightarrow> bool \<Rightarrow> 'a \<Rightarrow> 'a list \<Rightarrow> nat" where
  "extend_run cmp isDescending previousElement [] = 0"
| "extend_run cmp isDescending previousElement (currentElement # rest) =
     (let order = cmp_value (cmp currentElement previousElement)
      in if (if isDescending then order \<ge> 0 else order < 0) then 0
         else Suc (extend_run cmp isDescending currentElement rest))"

text \<open>The work array after \<open>CountAndMakeRun(0, length)\<close> and the run length it returns.\<close>

definition CountAndMakeRun :: "('a \<Rightarrow> 'a \<Rightarrow> int option) \<Rightarrow> 'a list \<Rightarrow> 'a list \<times> nat" where
  "CountAndMakeRun cmp workArray =
     (case workArray of
        elementHigh # elementLow # rest \<Rightarrow>
          (let isDescending = cmp_value (cmp elementLow elementHigh) < 0;
               runLength = 2 + extend_run cmp isDescending elementLow rest
           in (if isDescending
               then rev (take runLength workArray) @ drop runLength workArray
               else workArray,
               runLength))
      | _ \<Rightarrow> (workArray, 1))"

text \<open>
  The binary search of \<open>BinaryInsertionSort\<close> for the place of \<open>pivot\<close> in the sorted part
  \<open>workArray[left..right)\<close>.
\<close>

function insertion_point ::
  "('a \<Rightarrow> 'a \<Rightarrow> int option) \<Rightarrow> 'a \<Rightarrow> 'a list \<Rightarrow> nat \<Rightarrow> nat \<Rightarrow> nat" where
  "insertion_point cmp pivot workArray left right =
     (if left < right
      then (let mid = left + (right - left) div 2
            in if cmp_value (cmp pivot (workArray ! mid)) < 0
               then insertion_point cmp pivot workArray left mid
               else insertion_point cmp pivot workArray (mid + 1) right)
      else left)"
  by pat_completeness auto
termination
  by (relation "measure (\<lambda>(cmp, pivot, workArray, left, right). right - left)") auto

declare insertion_point.simps [simp del]

text \<open>One round of \<open>BinaryInsertionSort\<close>: the pivot moves to its place in the sorted part.\<close>

definition binary_insert :: "('a \<Rightarrow> 'a \<Rightarrow> int option) \<Rightarrow> 'a list \<Rightarrow> 'a \<Rightarrow> 'a list" where
  "binary_insert cmp workArray pivot =
     (let left = insertion_point cmp pivot workArray 0 (length workArray)
      in take left workArray @ pivot # drop left workArray)"

text \<open>\<open>BinaryInsertionSort(0, start, length)\<close>: the elements from \<open>start\<close> on, in their order.\<close>

definition BinaryInsertionSort :: "('a \<Rightarrow> 'a \<Rightarrow> int option) \<Rightarrow> 'a list \<Rightarrow> nat \<Rightarrow> 'a list" where
  "BinaryInsertionSort cmp workArray start =
     foldl (binary_insert cmp) (take start workArray) (drop start workArray)"

definition v8_sort :: "'a sort_engine" where
  "v8_sort cmp xs =
     (if length xs < 2 then xs
      else (case CountAndMakeRun cmp xs of
              (workArray, runLength) \<Rightarrow> BinaryInsertionSort cmp workArray runLength))"

text \<open>
  The comparator of \<open>paginatedTrades\<close>:
  \<^verbatim>\<open>(a, b) => new Date(b.timestamp).getTime() - new Date(a.timestamp).getTime()\<close>.
  Parsing a date string is the platform's; \<open>getTime\<close> is that function, \<open>None\<close> where the
  string is no date (\<open>getTime()\<close> is \<open>NaN\<close> there, and so is the difference).
\<close>

definition newestFirst :: "(string \<Rightarrow> int option) \<Rightarrow> Trade \<Rightarrow> Trade \<Rightarrow> int option" where
  "newestFirst getTime a b =
     (case (getTime (timestamp b), getTime (timestamp a)) of
        (Some tb, Some ta) \<Rightarrow> Some (tb - ta)
      | _ \<Rightarrow> None)"

text \<open>\<open>[...trades].sort(...)\<close>, the sorted copy, with the engine \<open>srt\<close>.\<close>

definition sortedTrades ::
  "Trade sort_engine \<Rightarrow> (string \<Rightarrow> int option) \<Rightarrow> Trade list \<Rightarrow> Trade list" where
  "sortedTrades srt getTime trades = srt (newestFirst getTime) trades"

text \<open>\<open>trades\<close> is \<open>None\<close> while the query has no data (\<open>undefined\<close>).\<close>

definition paginatedTrades ::
  "Trade sort_engine \<Rightarrow> (string \<Rightarrow> int option) \<Rightarrow> Trade list option \<Rightarrow> int \<Rightarrow> Trade list" where
  "paginatedTrades srt getTime trades currentPage =
     (case trades of
        None \<Rightarrow> []
      | Some ts \<Rightarrow>
          (let startIndex = (currentPage - 1) * TRADES_PER_PAGE
           in js_slice (sortedTrades srt getTime ts) startIndex
                (startIndex + TRADES_PER_PAGE)))"








text \<open>
  The order the page is sorted in: \<open>a\<close> is not older than \<open>b\<close>, both timestamps being
  dates; and the time of a trade whose timestamp is a date.
\<close>

definition not_older :: "(string \<Rightarrow> int option) \<Rightarrow> Trade \<Rightarrow> Trade \<Rightarrow> bool" where
  "not_older getTime a b =
     (case (getTime (timestamp a), getTime (timestamp b)) of
        (Some ta, Some tb) \<Rightarrow> tb \<le> ta
      | _ \<Rightarrow> False)"

definition time_of :: "(string \<Rightarrow> int option) \<Rightarrow> Trade \<Rightarrow> int" where
  "time_of getTime t = (case getTime (timestamp t) of Some v \<Rightarrow> v | None \<Rightarrow> 0)"

section \<open>Profit and loss shown per trade (TradesHistory component)\<close>

text \<open>
  \<open>getPositionStatus\<close>: the backend's \<open>type\<close> decides when it is \<open>open\<close> or \<open>close\<close>;
  otherwise the status is guessed from the open positions of the bot. \<open>botStatus\<close> is
  \<open>None\<close> while the status query has no data.
\<close>

definition getPositionStatus :: "BotStatus option \<Rightarrow> Trade \<Rightarrow> string" where
  "getPositionStatus botStatus trade =
     (if trade_type trade = Some TRADE_TYPE_OPEN then POSITION_STATUS_OPEN
      else if trade_type trade = Some TRADE_TYPE_CLOSE then POSITION_STATUS_CLOSED
      else (case botStatus of
              None \<Rightarrow> POSITION_STATUS_UNKNOWN
            | Some st \<Rightarrow>
                (if list_ex (\<lambda>pos. pos_symbol pos = symbol trade) (positions st)
                 then POSITION_STATUS_OPEN
                 else POSITION_STATUS_CLOSED)))"

text \<open>\<open>xs[i]\<close> of JavaScript: \<open>undefined\<close> (\<open>None\<close>) outside the array.\<close>

definition js_index :: "'a list \<Rightarrow> int \<Rightarrow> 'a option" where
  "js_index xs i = (if 0 \<le> i \<and> i < int (length xs) then Some (xs ! nat i) else None)"

record PnLResult =
  res_pnl :: "number option"
  isLive :: bool

text \<open>
  The position the unrealized branch of \<open>calculateTradePnL\<close> works on: the first position
  of the trade's symbol, looked up only when the trade's status is \<open>open\<close> and the bot
  status is loaded.
\<close>

definition openPosition :: "BotStatus option \<Rightarrow> Trade \<Rightarrow> Position option" where
  "openPosition botStatus trade =
     (if getPositionStatus botStatus trade = POSITION_STATUS_OPEN
      then (case botStatus of
              None \<Rightarrow> None
            | Some st \<Rightarrow> find (\<lambda>pos. pos_symbol pos = symbol trade) (positions st))
      else None)"

text \<open>
  \<open>calculateTradePnL(trade, index)\<close>, with the two query results it reads made arguments.
  Its returns, in the source's order: no trade data; the backend's own nonzero \<open>pnl\<close>; the
  unrealized value of an open position; the realized value of a sell that follows a buy
  of the same symbol at \<open>trades[index - 1]\<close>; otherwise none.
\<close>

definition calculateTradePnL ::
  "Trade list option \<Rightarrow> BotStatus option \<Rightarrow> Trade \<Rightarrow> int \<Rightarrow> PnLResult" where
  "calculateTradePnL trades botStatus trade index =
     (case trades of
        None \<Rightarrow> \<lparr>res_pnl = None, isLive = False\<rparr>
      | Some ts \<Rightarrow>
          (if trade_pnl trade \<noteq> None \<and> trade_pnl trade \<noteq> Some 0
           then \<lparr>res_pnl = trade_pnl trade, isLive = False\<rparr>
           else (case openPosition botStatus trade of
                   Some position \<Rightarrow>
                     (let currentPrice = pos_price position;
                          entryPrice = price trade;
                          unrealizedPnL =
                            (if side trade = TRADE_SIDE_BUY
                             then (currentPrice - entryPrice) * quantity trade
                             else if side trade = TRADE_SIDE_SELL
                             then (entryPrice - currentPrice) * quantity trade
                             else 0)
                      in \<lparr>res_pnl = Some unrealizedPnL, isLive = True\<rparr>)
                 | None \<Rightarrow>
                     (if side trade = TRADE_SIDE_SELL \<and> index > 0
                      then (case js_index ts (index - 1) of
                              Some prevTrade \<Rightarrow>
                                (if side prevTrade = TRADE_SIDE_BUY
                                    \<and> symbol prevTrade = symbol trade
                                 then \<lparr>res_pnl = Some ((price trade - price prevTrade)
                                          * min (quantity trade) (quantity prevTrade)),
                                       isLive = False\<rparr>
                                 else \<lparr>res_pnl = None, isLive = False\<rparr>)
                            | None \<Rightarrow> \<lparr>res_pnl = None, isLive = False\<rparr>)
                      else \<lparr>res_pnl = None, isLive = False\<rparr>))))"

subsection \<open>Sample trades\<close>

definition mk_trade ::
  "string \<Rightarrow> string \<Rightarrow> string \<Rightarrow> number \<Rightarrow> number \<Rightarrow> string option \<Rightarrow> Trade" where
  "mk_trade tstamp smb sd pr qty ty =
     \<lparr>timestamp = tstamp, symbol = smb, side = sd, price = pr, quantity = qty,
      trade_type = ty, trade_pnl = None\<rparr>"

text \<open>A clock for the samples: the timestamps \<open>''t1''\<close> to \<open>''t7''\<close> parse, nothing else does.\<close>

definition sample_getTime :: "string \<Rightarrow> int option" where
  "sample_getTime s =
     map_of [(''t1'', 1), (''t2'', 2), (''t3'', 3), (''t4'', 4), (''t5'', 5), (''t6'', 6),
             (''t7'', 7)] s"

definition sample_trades :: "Trade list" where
  "sample_trades =
     [mk_trade ''t3'' ''BTCUSDT'' ''buy'' 100 1 (Some ''open''),
      mk_trade ''t1'' ''ETHUSDT'' ''buy'' 10 2 (Some ''open''),
      mk_trade ''t7'' ''BTCUSDT'' ''sell'' 110 1 (Some ''close''),
      mk_trade ''t2'' ''ETHUSDT'' ''sell'' 12 2 (Some ''close''),
      mk_trade ''t6'' ''SOLUSDT'' ''sell'' 50 3 (Some ''open''),
      mk_trade ''t4'' ''SOLUSDT'' ''buy'' 40 3 (Some ''close''),
      mk_trade ''t5'' ''BTCUSDT'' ''buy'' 105 1 (Some ''open'')]"

definition sample_status :: "Position list \<Rightarrow> BotStatus" where
  "sample_status ps = \<lparr>pnl = 0, positions = ps, balance = 10000, equity = 10000\<rparr>"

definition sample_position :: "string \<Rightarrow> number \<Rightarrow> number \<Rightarrow> string \<Rightarrow> Position" where
  "sample_position smb qty pr sd =
     \<lparr>pos_symbol = smb, pos_quantity = qty, pos_price = pr, pos_side = sd\<rparr>"

section \<open>API client: the trades of a bot (lib/api.ts)\<close>

text \<open>
  An awaited request either resolves with the response data or rejects with the thrown
  error. Of the error, \<open>fetchBotTrades\<close> reads \<open>error?.response?.status\<close> only: the field
  is \<open>None\<close> when the error has no response (or the response no status).
\<close>

record AxiosError =
  response_status :: "int option"
  message :: string

text \<open>
  \<open>fetchBotTrades(botId)\<close>; \<open>api_get\<close> is \<open>api.get\<close> of the axios instance, from the request
  path to the outcome of the request. A thrown error is \<open>Inl\<close>.
\<close>

definition fetchBotTrades ::
  "(string \<Rightarrow> AxiosError + Trade list) \<Rightarrow> string \<Rightarrow> AxiosError + Trade list" where
  "fetchBotTrades api_get botId =
     (case api_get (''/bots/'' @ botId @ ''/trades'') of
        Inr data \<Rightarrow> Inr data
      | Inl error \<Rightarrow>
          (if response_status error = Some 404 then Inr [] else Inl error))"

section \<open>Bot form validation and submission (BotModal component)\<close>

text \<open>
  The values a lookup in the form parameters can give (\<open>Record<string, any>\<close>). A number
  is a rational or \<open>NaN\<close>; \<open>Obj\<close> is a function or a plain object, such as the members
  every plain object inherits, which \<open>Number\<close> converts to \<open>NaN\<close>.
\<close>

datatype jsval = Undefined | Null | Str string | Num number | NaN | Bool bool | Obj

text \<open>
  A string whose characters matter, the bot id, is the list of its UTF-16 code units.
\<close>

type_synonym js_string = "nat list"

record StrategyParameterSchema =
  schema_type :: string
  minimum :: "number option"
  maximum :: "number option"
  schema_default :: "jsval option"

text \<open>
  \<open>schema_default\<close> is \<open>None\<close> when the schema object has no \<open>default\<close> key, which is what
  \<open>'default' in schema\<close> tests. \<open>parameter_schema\<close> lists the entries in the order of
  \<open>Object.entries\<close>.
\<close>

record StrategyInfo =
  strategy_name :: string
  parameter_schema :: "(string \<times> StrategyParameterSchema) list"

record FormData =
  form_id :: js_string
  form_strategy :: string
  form_symbol :: string
  form_mode :: string
  form_initial_balance :: number
  form_parameters :: "(string \<times> jsval) list"
  form_configuration :: string

datatype modal_mode = Create | Edit

datatype validation_message =
    BotIdRequired
  | BotIdInvalid
  | StrategyRequired
  | SymbolRequired
  | BalanceNotPositive
  | ParamRequired string
  | ParamNotNumber string
  | ParamNotInteger string
  | ParamBelowMinimum string number
  | ParamAboveMaximum string number

type_synonym ValidationErrors = "(string \<times> validation_message) list"

text \<open>\<open>newErrors[key] = message\<close>: the value of a present key is replaced, a new key is added.\<close>

fun set_error :: "string \<Rightarrow> validation_message \<Rightarrow> ValidationErrors \<Rightarrow> ValidationErrors" where
  "set_error k v [] = [(k, v)]"
| "set_error k v ((k', v') # es) =
     (if k = k' then (k, v) # es else (k', v') # set_error k v es)"

text \<open>
  \<open>String.prototype.trim\<close> strips the white space and the line terminators of ECMAScript
  from both ends: tab, line feed, vertical tab, form feed, carriage return, space,
  U+00A0, U+1680, U+2000 to U+200A, U+2028, U+2029, U+202F, U+205F, U+3000 and U+FEFF.
\<close>

definition js_space :: "nat \<Rightarrow> bool" where
  "js_space c =
     (c \<in> set [0x09, 0x0A, 0x0B, 0x0C, 0x0D, 0x20, 0xA0, 0x1680, 0x2028, 0x2029, 0x202F,
                0x205F, 0x3000, 0xFEFF]
      \<or> (0x2000 \<le> c \<and> c \<le> 0x200A))"

definition js_trim :: "js_string \<Rightarrow> js_string" where
  "js_trim s = rev (dropWhile js_space (rev (dropWhile js_space s)))"

text \<open>The character class of \<^verbatim>\<open>/^[a-zA-Z0-9_-]+$/\<close>.\<close>

definition id_char :: "nat \<Rightarrow> bool" where
  "id_char c =
     ((0x61 \<le> c \<and> c \<le> 0x7A) \<or> (0x41 \<le> c \<and> c \<le> 0x5A) \<or> (0x30 \<le> c \<and> c \<le> 0x39)
      \<or> c = 0x5F \<or> c = 0x2D)"

definition id_pattern_test :: "js_string \<Rightarrow> bool" where
  "id_pattern_test s = (s \<noteq> [] \<and> list_all id_char s)"

text \<open>
  \<open>Number(value)\<close>, \<open>None\<close> for \<open>NaN\<close>. Reading a string as a number is the platform's:
  \<open>parseNumber\<close> is that function.
\<close>

definition Number :: "(string \<Rightarrow> number option) \<Rightarrow> jsval \<Rightarrow> number option" where
  "Number parseNumber v =
     (case v of
        Undefined \<Rightarrow> None
      | Null \<Rightarrow> Some 0
      | Str s \<Rightarrow> parseNumber s
      | Num r \<Rightarrow> Some r
      | NaN \<Rightarrow> None
      | Bool b \<Rightarrow> Some (if b then 1 else 0)
      | Obj \<Rightarrow> None)"

definition isInteger :: "number option \<Rightarrow> bool" where
  "isInteger x = (case x of None \<Rightarrow> False | Some r \<Rightarrow> rat_of_int \<lfloor>r\<rfloor> = r)"

text \<open>A comparison with \<open>NaN\<close> is false.\<close>

definition num_less :: "number option \<Rightarrow> number option \<Rightarrow> bool" where
  "num_less x y = (case (x, y) of (Some a, Some b) \<Rightarrow> a < b | _ \<Rightarrow> False)"

text \<open>
  \<open>formData.parameters\<close> is a plain object (\<open>{}\<close>, a spread copy or \<open>Object.fromEntries\<close>), so a
  lookup goes on to \<open>Object.prototype\<close> when the object has no own key of that name. These
  are the names found there; each holds a function, \<open>__proto__\<close> the prototype itself.
\<close>

definition object_prototype_members :: "string list" where
  "object_prototype_members =
     [''constructor'', ''hasOwnProperty'', ''isPrototypeOf'', ''propertyIsEnumerable'',
      ''toLocaleString'', ''toString'', ''valueOf'', ''__defineGetter__'',
      ''__defineSetter__'', ''__lookupGetter__'', ''__lookupSetter__'', ''__proto__'']"

text \<open>
  \<open>formData.parameters[paramName]\<close>: the own entry, else the inherited member, else
  \<open>undefined\<close>.
\<close>

definition param_value :: "(string \<times> jsval) list \<Rightarrow> string \<Rightarrow> jsval" where
  "param_value ps paramName =
     (case map_of ps paramName of
        Some v \<Rightarrow> v
      | None \<Rightarrow> (if paramName \<in> set object_prototype_members then Obj else Undefined))"

text \<open>\<open>value === undefined || value === null || value === ''\<close>.\<close>

definition is_blank :: "jsval \<Rightarrow> bool" where
  "is_blank v = (v = Undefined \<or> v = Null \<or> v = Str [])"

text \<open>The body of the \<open>forEach\<close> over the schema entries, on the errors collected so far.\<close>

definition validateParameter ::
  "(string \<Rightarrow> number option) \<Rightarrow> (string \<times> jsval) list
     \<Rightarrow> ValidationErrors \<Rightarrow> string \<times> StrategyParameterSchema \<Rightarrow> ValidationErrors" where
  "validateParameter parseNumber ps newErrors entry =
     (let paramName = fst entry;
          schema = snd entry;
          v = param_value ps paramName;
          key = ''parameters.'' @ paramName;
          errs1 =
            (if is_blank v \<and> schema_default schema = None
             then set_error key (ParamRequired paramName) newErrors
             else newErrors)
      in if \<not> is_blank v
         then (if schema_type schema = ''number'' \<and> Number parseNumber v = None
               then set_error key (ParamNotNumber paramName) errs1
               else if schema_type schema = ''integer'' \<and> \<not> isInteger (Number parseNumber v)
               then set_error key (ParamNotInteger paramName) errs1
               else if minimum schema \<noteq> None
                       \<and> num_less (Number parseNumber v) (minimum schema)
               then set_error key (ParamBelowMinimum paramName (the (minimum schema))) errs1
               else if maximum schema \<noteq> None
                       \<and> num_less (maximum schema) (Number parseNumber v)
               then set_error key (ParamAboveMaximum paramName (the (maximum schema))) errs1
               else errs1)
         else errs1)"

text \<open>
  \<open>validateForm\<close>: the errors it hands to \<open>setErrors\<close>, and its result. \<open>selectedStrategy\<close> is
  \<open>None\<close> while no strategy details are loaded.
\<close>

definition validateForm_errors ::
  "(string \<Rightarrow> number option) \<Rightarrow> modal_mode \<Rightarrow> FormData \<Rightarrow> StrategyInfo option
     \<Rightarrow> ValidationErrors" where
  "validateForm_errors parseNumber mode formData selectedStrategy =
     (let e0 = [];
          e1 = (if js_trim (form_id formData) = [] \<and> mode = Create
                then set_error ''id'' BotIdRequired e0
                else if form_id formData \<noteq> [] \<and> \<not> id_pattern_test (form_id formData)
                then set_error ''id'' BotIdInvalid e0
                else e0);
          e2 = (if form_strategy formData = []
                then set_error ''strategy'' StrategyRequired e1 else e1);
          e3 = (if form_symbol formData = []
                then set_error ''symbol'' SymbolRequired e2 else e2);
          e4 = (if form_initial_balance formData \<le> 0
                then set_error ''initial_balance'' BalanceNotPositive e3 else e3)
      in (case selectedStrategy of
            None \<Rightarrow> e4
          | Some strategy \<Rightarrow>
              foldl (validateParameter parseNumber (form_parameters formData)) e4
                (parameter_schema strategy)))"

definition validateForm ::
  "(string \<Rightarrow> number option) \<Rightarrow> modal_mode \<Rightarrow> FormData \<Rightarrow> StrategyInfo option \<Rightarrow> bool" where
  "validateForm parseNumber mode formData selectedStrategy =
     (validateForm_errors parseNumber mode formData selectedStrategy = [])"

text \<open>
  \<open>handleSubmit\<close>: what a submission does. A mutation that runs sends its request; the
  modal closes when that mutation succeeds (\<open>mutation_ok\<close>), and a failed one is caught.
  \<open>botData\<close> and \<open>updateData\<close> are the payloads of the two requests.
\<close>

record botData =
  bd_id :: js_string
  bd_strategy :: string
  bd_symbol :: string
  bd_mode :: string
  bd_initial_balance :: number
  bd_parameters :: "(string \<times> jsval) list"

record updateData =
  ud_strategy :: string
  ud_symbol :: string
  ud_mode :: string
  ud_initial_balance :: number
  ud_parameters :: "(string \<times> jsval) list"

datatype request = CreateBotRequest botData | UpdateBotConfigRequest string updateData

record submission =
  errors_shown :: ValidationErrors
  requests_sent :: "request list"
  modal_closed :: bool

definition handleSubmit ::
  "(string \<Rightarrow> number option) \<Rightarrow> modal_mode \<Rightarrow> string \<Rightarrow> FormData \<Rightarrow> StrategyInfo option
     \<Rightarrow> bool \<Rightarrow> submission" where
  "handleSubmit parseNumber mode botId formData selectedStrategy mutation_ok =
     (if \<not> validateForm parseNumber mode formData selectedStrategy
      then \<lparr>errors_shown = validateForm_errors parseNumber mode formData selectedStrategy,
            requests_sent = [], modal_closed = False\<rparr>
      else if mode = Create
      then \<lparr>errors_shown = [],
            requests_sent =
              [CreateBotRequest
                 \<lparr>bd_id = form_id formData, bd_strategy = form_strategy formData,
                  bd_symbol = form_symbol formData, bd_mode = form_mode formData,
                  bd_initial_balance = form_initial_balance formData,
                  bd_parameters = form_parameters formData\<rparr>],
            modal_closed = mutation_ok\<rparr>
      else \<lparr>errors_shown = [],
            requests_sent =
              [UpdateBotConfigRequest botId
                 \<lparr>ud_strategy = form_strategy formData, ud_symbol = form_symbol formData,
                  ud_mode = form_mode formData,
                  ud_initial_balance = form_initial_balance formData,
                  ud_parameters = form_parameters formData\<rparr>],
            modal_closed = mutation_ok\<rparr>)"

subsection \<open>Sample forms\<close>

definition sample_parse :: "string \<Rightarrow> number option" where
  "sample_parse s = map_of [(''5'', 5), (''20'', 20), (''250'', 250)] s"

definition sample_strategy :: StrategyInfo where
  "sample_strategy =
     \<lparr>strategy_name = ''SmaCrossStrategy'',
      parameter_schema =
        [(''fast_period'',
          \<lparr>schema_type = ''integer'', minimum = Some 2, maximum = Some 50,
           schema_default = Some (Num 10)\<rparr>),
         (''slow_period'',
          \<lparr>schema_type = ''integer'', minimum = Some 5, maximum = Some 200,
           schema_default = None\<rparr>)]\<rparr>"

text \<open>A strategy whose one parameter, a string without a default, is named \<open>constructor\<close>.\<close>

definition inherited_name_strategy :: StrategyInfo where
  "inherited_name_strategy =
     \<lparr>strategy_name = ''ReportStrategy'',
      parameter_schema =
        [(''constructor'',
          \<lparr>schema_type = ''string'', minimum = None, maximum = None,
           schema_default = None\<rparr>)]\<rparr>"

definition sample_form :: "string \<Rightarrow> number \<Rightarrow> (string \<times> jsval) list \<Rightarrow> FormData" where
  "sample_form ident bal ps =
     \<lparr>form_id = map of_char ident, form_strategy = ''SmaCrossStrategy'', form_symbol = ''BTCUSDT'',
      form_mode = ''paper'', form_initial_balance = bal, form_parameters = ps,
      form_configuration = []\<rparr>"

section \<open>Simulation and accounting engine\<close>

text \<open>
  Modelled from the spec: the engine itself (fill model, portfolio ledger, risk engine
  and backtest loop) is Python code that is not among the sources, which hold the
  dashboard and the design notes only. This section models its fill model and its
  portfolio ledger; every definition follows the specification, sections 3 and 4, and
  the choices the specification leaves open are named where they are made. Prices and
  quantities are exact rationals, so the rounding step of the specification (once per
  fill) is the identity.
\<close>

subsection \<open>Data model\<close>

text \<open>Modelled from the spec: the side of a signal, order or fill (\<open>buy\<close>, \<open>sell\<close>).\<close>

datatype direction = Buy | Sell

text \<open>Modelled from the spec: the order types \<open>market\<close> and \<open>limit\<close>.\<close>

datatype order_kind = Market | Limit

text \<open>Modelled from the spec: the time-in-force policies.\<close>

datatype time_in_force = GTC | IOC

text \<open>Modelled from the spec: the status of an Order.\<close>

datatype order_status = New | PartiallyFilled | Filled | Cancelled | Rejected

text \<open>Modelled from the spec: the side of a position.\<close>

datatype position_side = Long | Short

text \<open>
  Modelled from the spec: the errors of section 7 that are raised as such; of them the
  ledger raises \<open>InsufficientMarginError\<close>.
\<close>

datatype engine_error =
    ConfigurationError
  | InsufficientMarginError
  | OutOfOrderBarError
  | MalformedBarError

text \<open>Modelled from the spec: a Bar of section 3.\<close>

record bar =
  bar_timestamp :: int
  bar_symbol :: string
  bar_open :: rat
  bar_high :: rat
  bar_low :: rat
  bar_close :: rat
  bar_volume :: rat

text \<open>Modelled from the spec: an Order of section 3.\<close>

record order =
  order_id :: nat
  order_symbol :: string
  order_side :: direction
  order_type :: order_kind
  order_quantity :: rat
  order_limit_price :: "rat option"
  order_time_in_force :: time_in_force
  order_status :: order_status
  filled_quantity :: rat
  average_fill_price :: rat
  created_at :: int

text \<open>
  Modelled from the spec: a Fill; \<open>apply_fill\<close> reads the symbol and the side of a fill, so
  the record carries them next to the order id.
\<close>

record fill =
  fill_order_id :: nat
  fill_symbol :: string
  fill_side :: direction
  fill_price :: rat
  fill_quantity :: rat
  fill_fee :: rat
  fill_timestamp :: int
  fill_is_partial :: bool

subsection \<open>Fill model\<close>

text \<open>
  Modelled from the spec: the configuration of the fill model of section 4.1: slippage
  as a fraction of the price or an absolute offset, taker and maker fee rates per
  symbol, and the same-bar mode. The optional volume-participation cap is left
  inactive, so every fill is for the whole open quantity.
\<close>

datatype slippage = SlippagePercent rat | SlippageAbsolute rat

text \<open>Modelled from the spec: the settings of the fill model.\<close>

record fill_config =
  fc_slippage :: slippage
  fc_taker_rate :: "string \<Rightarrow> rat"
  fc_maker_rate :: "string \<Rightarrow> rat"
  fc_same_bar :: bool

text \<open>
  Modelled from the spec: the reference price of a market order is the open of the bar
  the order is evaluated against, or its close in same-bar mode; slippage is adverse to
  the side of the order.
\<close>

definition reference_price :: "fill_config \<Rightarrow> bar \<Rightarrow> rat" where
  "reference_price fc b = (if fc_same_bar fc then bar_close b else bar_open b)"

text \<open>Modelled from the spec: slippage moves the price against the order: a buy pays up, a sell
  receives down.\<close>

definition slipped_price :: "fill_config \<Rightarrow> direction \<Rightarrow> rat \<Rightarrow> rat" where
  "slipped_price fc sd p =
     (case fc_slippage fc of
        SlippagePercent s \<Rightarrow> (case sd of Buy \<Rightarrow> p * (1 + s) | Sell \<Rightarrow> p * (1 - s))
      | SlippageAbsolute a \<Rightarrow> (case sd of Buy \<Rightarrow> p + a | Sell \<Rightarrow> p - a))"

text \<open>
  Modelled from the spec: "a buy limit fills if low \<open>\<le>\<close> limit_price; a sell limit fills at
  limit_price if high \<open>\<ge>\<close> limit_price".
\<close>

definition limit_crosses :: "direction \<Rightarrow> rat \<Rightarrow> bar \<Rightarrow> bool" where
  "limit_crosses sd limit_price b =
     (case sd of Buy \<Rightarrow> bar_low b \<le> limit_price | Sell \<Rightarrow> bar_high b \<ge> limit_price)"

text \<open>
  Modelled from the spec: the fill of the open quantity of an order at a price, with the
  fee \<open>fee_rate * fill_price * fill_quantity\<close>, and the order after it.
\<close>

definition make_fill :: "order \<Rightarrow> bar \<Rightarrow> rat \<Rightarrow> rat \<Rightarrow> fill" where
  "make_fill ord b p fee_rate =
     \<lparr>fill_order_id = order_id ord, fill_symbol = order_symbol ord,
      fill_side = order_side ord, fill_price = p,
      fill_quantity = order_quantity ord - filled_quantity ord,
      fill_fee = fee_rate * p * (order_quantity ord - filled_quantity ord),
      fill_timestamp = bar_timestamp b, fill_is_partial = False\<rparr>"

text \<open>Modelled from the spec: an order filled in full.\<close>

definition order_filled :: "order \<Rightarrow> rat \<Rightarrow> order" where
  "order_filled ord p =
     ord\<lparr>order_status := Filled, filled_quantity := order_quantity ord,
         average_fill_price := p\<rparr>"

text \<open>
  Modelled from the spec: the fill model. A market order fills at once at the slipped
  reference price with the taker rate. A limit order fills at its limit price with the
  maker rate when the bar crosses it; otherwise an IOC order is cancelled and a GTC
  order stays as it is. The result is the fill, if any, and the order after the bar.
\<close>

definition fill_order :: "fill_config \<Rightarrow> order \<Rightarrow> bar \<Rightarrow> fill option \<times> order" where
  "fill_order fc ord b =
     (case order_type ord of
        Market \<Rightarrow>
          (let p = slipped_price fc (order_side ord) (reference_price fc b)
           in (Some (make_fill ord b p (fc_taker_rate fc (order_symbol ord))),
               order_filled ord p))
      | Limit \<Rightarrow>
          (case order_limit_price ord of
             None \<Rightarrow> (None, ord\<lparr>order_status := Rejected\<rparr>)
           | Some limit_price \<Rightarrow>
               (if limit_crosses (order_side ord) limit_price b
                then (Some (make_fill ord b limit_price (fc_maker_rate fc (order_symbol ord))),
                      order_filled ord limit_price)
                else (None,
                      (case order_time_in_force ord of
                         IOC \<Rightarrow> ord\<lparr>order_status := Cancelled\<rparr>
                       | GTC \<Rightarrow> ord)))))"

subsection \<open>Portfolio ledger\<close>

text \<open>
  Modelled from the spec: a Position of section 3, kept per symbol, and the ledger of
  section 4.2: cash, the open positions (at most one per symbol), the realized PnL booked
  so far, the latest mark price of each symbol and the equity.
\<close>

record position =
  position_side :: position_side
  position_quantity :: rat
  entry_price :: rat
  position_leverage :: rat

text \<open>Modelled from the spec: the state of the Portfolio Ledger.\<close>

record ledger =
  cash :: rat
  open_positions :: "(string \<times> position) list"
  realized_pnl :: rat
  last_prices :: "string \<rightharpoonup> rat"
  total_equity :: rat

text \<open>Modelled from the spec: the starting cash of a ledger and its leverage, \<open>None\<close> when leverage
  is not enabled.\<close>

record ledger_config =
  starting_cash :: rat
  leverage :: "rat option"

text \<open>Modelled from the spec: \<open>direction_sign\<close> is \<open>+1\<close> for a long and \<open>-1\<close> for a short.\<close>

definition direction_sign :: "position_side \<Rightarrow> rat" where
  "direction_sign sd = (case sd of Long \<Rightarrow> 1 | Short \<Rightarrow> - 1)"

text \<open>Modelled from the spec: a buy opens a long, a sell opens a short.\<close>

definition opening_side :: "direction \<Rightarrow> position_side" where
  "opening_side sd = (case sd of Buy \<Rightarrow> Long | Sell \<Rightarrow> Short)"

text \<open>
  Modelled from the spec: unrealized PnL is \<open>(mark_price - entry_price) * quantity *
  direction_sign\<close>. The mark price of a symbol is its latest price of a mark-to-market
  pass; a symbol never marked is valued at the entry price.
\<close>

definition mark_price :: "(string \<rightharpoonup> rat) \<Rightarrow> string \<times> position \<Rightarrow> rat" where
  "mark_price prices sp =
     (case prices (fst sp) of Some p \<Rightarrow> p | None \<Rightarrow> entry_price (snd sp))"

text \<open>Modelled from the spec: the unrealized PnL of one position.\<close>

definition unrealized_pnl :: "(string \<rightharpoonup> rat) \<Rightarrow> string \<times> position \<Rightarrow> rat" where
  "unrealized_pnl prices sp =
     (mark_price prices sp - entry_price (snd sp)) * position_quantity (snd sp)
       * direction_sign (position_side (snd sp))"

text \<open>Modelled from the spec: the sum of the unrealized PnL of the open positions.\<close>

definition total_unrealized :: "ledger \<Rightarrow> rat" where
  "total_unrealized l = sum_list (map (unrealized_pnl (last_prices l)) (open_positions l))"

text \<open>Modelled from the spec: \<open>equity = cash + sum(position unrealized PnL)\<close>.\<close>

definition recompute_equity :: "ledger \<Rightarrow> ledger" where
  "recompute_equity l = l\<lparr>total_equity := cash l + total_unrealized l\<rparr>"


text \<open>
  Modelled from the spec: what a fill does to the position of its symbol, and the
  realized PnL it books. A fill in the direction of the position adds to it at the
  quantity-weighted average entry price. An opposing fill realizes \<open>(fill_price -
  entry_price) * closed_quantity * direction_sign\<close> and reduces the position, closes it
  (\<open>None\<close>: the position is removed), or closes it and opens the remainder in the opposite
  direction.
\<close>

definition update_position :: "rat \<Rightarrow> fill \<Rightarrow> position option \<Rightarrow> position option \<times> rat" where
  "update_position lev f held =
     (case held of
        None \<Rightarrow>
          (Some \<lparr>position_side = opening_side (fill_side f),
                 position_quantity = fill_quantity f, entry_price = fill_price f,
                 position_leverage = lev\<rparr>, 0)
      | Some p \<Rightarrow>
          (if opening_side (fill_side f) = position_side p
           then (Some (p\<lparr>position_quantity := position_quantity p + fill_quantity f,
                         entry_price :=
                           (entry_price p * position_quantity p
                              + fill_price f * fill_quantity f)
                             / (position_quantity p + fill_quantity f)\<rparr>), 0)
           else (let closed_quantity = min (fill_quantity f) (position_quantity p);
                     realized = (fill_price f - entry_price p) * closed_quantity
                                  * direction_sign (position_side p)
                 in if fill_quantity f < position_quantity p
                    then (Some (p\<lparr>position_quantity :=
                                   position_quantity p - fill_quantity f\<rparr>), realized)
                    else if fill_quantity f = position_quantity p
                    then (None, realized)
                    else (Some \<lparr>position_side = opening_side (fill_side f),
                                position_quantity = fill_quantity f - position_quantity p,
                                entry_price = fill_price f,
                                position_leverage = lev\<rparr>, realized))))"

text \<open>Modelled from the spec: the position of a symbol is replaced in place, added, or removed when
  closed, so a symbol never has two positions.\<close>

definition set_position ::
  "string \<Rightarrow> position option \<Rightarrow> (string \<times> position) list \<Rightarrow> (string \<times> position) list" where
  "set_position smb held ps =
     (case held of
        None \<Rightarrow> filter (\<lambda>sp. fst sp \<noteq> smb) ps
      | Some p \<Rightarrow>
          (if list_ex (\<lambda>sp. fst sp = smb) ps
           then map (\<lambda>sp. if fst sp = smb then (smb, p) else sp) ps
           else ps @ [(smb, p)]))"

text \<open>
  Modelled from the spec: the margin a ledger needs is \<open>notional / leverage\<close> over its
  positions, the notional taken at the mark price; the free margin is the equity less
  that.
\<close>

definition required_margin :: "ledger \<Rightarrow> rat" where
  "required_margin l =
     sum_list (map (\<lambda>sp. position_quantity (snd sp) * mark_price (last_prices l) sp
                          / position_leverage (snd sp)) (open_positions l))"

text \<open>Modelled from the spec: the free margin of a ledger.\<close>

definition free_margin :: "ledger \<Rightarrow> rat" where
  "free_margin l = total_equity l - required_margin l"

text \<open>
  Modelled from the spec: \<open>apply_fill\<close>. Cash moves by \<open>-(side == buy ? 1 : -1) * price *
  quantity - fee\<close>, the position of the symbol is updated and the realized PnL booked in
  the same step, and the equity is recomputed. With leverage enabled the fill fails with
  \<open>InsufficientMarginError\<close> when the free margin after it would be negative.
\<close>

definition apply_fill :: "ledger_config \<Rightarrow> ledger \<Rightarrow> fill \<Rightarrow> engine_error + ledger" where
  "apply_fill lc l f =
     (let lev = (case leverage lc of None \<Rightarrow> 1 | Some v \<Rightarrow> v);
          upd = update_position lev f (map_of (open_positions l) (fill_symbol f));
          l' = recompute_equity
                 (l\<lparr>cash := cash l
                              - (case fill_side f of Buy \<Rightarrow> 1 | Sell \<Rightarrow> - 1)
                                  * fill_price f * fill_quantity f
                              - fill_fee f,
                    open_positions := set_position (fill_symbol f) (fst upd) (open_positions l),
                    realized_pnl := realized_pnl l + snd upd\<rparr>)
      in if leverage lc \<noteq> None \<and> free_margin l' < 0
         then Inl InsufficientMarginError
         else Inr l')"




subsection \<open>Sample market data, orders and fills\<close>

definition sample_bar :: "int \<Rightarrow> rat \<Rightarrow> rat \<Rightarrow> rat \<Rightarrow> rat \<Rightarrow> bar" where
  "sample_bar t opn hi lo cls =
     \<lparr>bar_timestamp = t, bar_symbol = ''BTCUSDT'', bar_open = opn, bar_high = hi,
      bar_low = lo, bar_close = cls, bar_volume = 1000\<rparr>"

definition sample_limit_order :: "direction \<Rightarrow> rat \<Rightarrow> order" where
  "sample_limit_order sd limit_price =
     \<lparr>order_id = 0, order_symbol = ''BTCUSDT'', order_side = sd, order_type = Limit,
      order_quantity = 1, order_limit_price = Some limit_price, order_time_in_force = GTC,
      order_status = New, filled_quantity = 0, average_fill_price = 0, created_at = 0\<rparr>"

definition sample_fill_config :: fill_config where
  "sample_fill_config =
     \<lparr>fc_slippage = SlippagePercent (1 / 1000), fc_taker_rate = (\<lambda>smb. 5 / 10000),
      fc_maker_rate = (\<lambda>smb. 2 / 10000), fc_same_bar = False\<rparr>"



section \<open>Verification of the dashboard code\<close>

lemmas botStatus_constants =
  POSITION_STATUS_OPEN_def POSITION_STATUS_CLOSED_def POSITION_STATUS_UNKNOWN_def
  TRADE_SIDE_BUY_def TRADE_SIDE_SELL_def TRADE_TYPE_OPEN_def TRADE_TYPE_CLOSE_def

subsection \<open>Facts about the pages\<close>


subsection \<open>The sort of V8 keeps the contract of ECMAScript\<close>

text \<open>The sort rearranges the array, whatever the comparator returns.\<close>

lemma CountAndMakeRun_shape:
  assumes "CountAndMakeRun cmp xs = (workArray, n)"
  shows "workArray = xs \<or> workArray = rev (take n xs) @ drop n xs"
proof (cases xs)
  case Nil
  with assms show ?thesis by (simp add: CountAndMakeRun_def)
next
  case (Cons hi more)
  show ?thesis
  proof (cases more)
    case Nil
    with Cons assms show ?thesis by (simp add: CountAndMakeRun_def)
  next
    case (Cons lo rest)
    have "CountAndMakeRun cmp xs =
        (let isDescending = cmp_value (cmp lo hi) < 0;
             runLength = 2 + extend_run cmp isDescending lo rest
         in (if isDescending then rev (take runLength xs) @ drop runLength xs else xs,
             runLength))"
      unfolding \<open>xs = hi # more\<close> \<open>more = lo # rest\<close>
      by (simp only: CountAndMakeRun_def list.case)
    with assms show ?thesis
      by (simp only: Let_def prod.inject split: if_splits) blast+
  qed
qed

lemma mset_CountAndMakeRun:
  "CountAndMakeRun cmp xs = (workArray, n) \<Longrightarrow> mset workArray = mset xs"
  by (metis CountAndMakeRun_shape append_take_drop_id mset_append mset_rev)

lemma mset_binary_insert: "mset (binary_insert cmp workArray pivot) = add_mset pivot (mset workArray)"
proof -
  have "mset (take n workArray) + mset (drop n workArray) = mset workArray" for n
    by (simp flip: mset_append)
  then show ?thesis
    by (simp add: binary_insert_def Let_def)
qed

lemma mset_foldl_binary_insert:
  "mset (foldl (binary_insert cmp) run rest) = mset run + mset rest"
  by (induction rest arbitrary: run) (simp_all add: mset_binary_insert)

lemma mset_BinaryInsertionSort: "mset (BinaryInsertionSort cmp workArray start) = mset workArray"
  unfolding BinaryInsertionSort_def mset_foldl_binary_insert
  by (simp flip: mset_append)

lemma mset_v8_sort: "mset (v8_sort cmp xs) = mset xs"
  by (auto simp: v8_sort_def mset_BinaryInsertionSort dest: mset_CountAndMakeRun split: prod.splits)

text \<open>
  With a comparator that is the difference of a key, the binary search ends behind the
  elements whose key is at most the key of the pivot, so a round of the insertion sort
  puts the pivot where the stable sort by that key has it.
\<close>

lemma insertion_point_spec:
  assumes "sorted (map k xs)"
    and "\<And>y. y \<in> set xs \<Longrightarrow> cmp pivot y = Some (k pivot - k y)"
    and "left \<le> right" and "right \<le> length xs"
    and "\<forall>j<left. k (xs ! j) \<le> k pivot"
    and "\<forall>j. right \<le> j \<and> j < length xs \<longrightarrow> k pivot < k (xs ! j)"
  shows "insertion_point cmp pivot xs left right \<le> length xs
         \<and> (\<forall>j<insertion_point cmp pivot xs left right. k (xs ! j) \<le> k pivot)
         \<and> (\<forall>j. insertion_point cmp pivot xs left right \<le> j \<and> j < length xs
               \<longrightarrow> k pivot < k (xs ! j))"
  using assms
proof (induction cmp pivot xs left right rule: insertion_point.induct)
  case (1 cmp pivot xs left right)
  show ?case
  proof (cases "left < right")
    case False
    then have stop: "insertion_point cmp pivot xs left right = left"
      by (simp add: insertion_point.simps [of cmp pivot xs left right])
    from False "1.prems"(3) have "left = right" by simp
    with "1.prems" show ?thesis
      unfolding stop by simp
  next
    case True
    define mid where "mid = left + (right - left) div 2"
    have mid: "left \<le> mid" "mid < right" "mid < length xs"
      using True "1.prems"(4) by (simp_all add: mid_def)
    have cmp_mid: "cmp pivot (xs ! mid) = Some (k pivot - k (xs ! mid))"
      using "1.prems"(2) mid(3) by simp
    have mono: "i \<le> j \<Longrightarrow> j < length xs \<Longrightarrow> k (xs ! i) \<le> k (xs ! j)" for i j
      using "1.prems"(1) by (simp add: sorted_iff_nth_mono)
    show ?thesis
    proof (cases "k pivot < k (xs ! mid)")
      case less: True
      then have step: "insertion_point cmp pivot xs left right
          = insertion_point cmp pivot xs left mid"
        using True
        by (simp add: insertion_point.simps [of cmp pivot xs left right] mid_def [symmetric]
            cmp_mid cmp_value_def Let_def)
      have above: "\<forall>j. mid \<le> j \<and> j < length xs \<longrightarrow> k pivot < k (xs ! j)"
        using less mono by force
      have "insertion_point cmp pivot xs left mid \<le> length xs
         \<and> (\<forall>j<insertion_point cmp pivot xs left mid. k (xs ! j) \<le> k pivot)
         \<and> (\<forall>j. insertion_point cmp pivot xs left mid \<le> j \<and> j < length xs
               \<longrightarrow> k pivot < k (xs ! j))"
      proof (rule "1.IH"(1) [OF True mid_def])
        show "cmp_value (cmp pivot (xs ! mid)) < 0"
          using less by (simp add: cmp_mid cmp_value_def)
      qed (use "1.prems" mid above in simp_all)
      then show ?thesis unfolding step .
    next
      case geq: False
      then have step: "insertion_point cmp pivot xs left right
          = insertion_point cmp pivot xs (mid + 1) right"
        using True
        by (simp add: insertion_point.simps [of cmp pivot xs left right] mid_def [symmetric]
            cmp_mid cmp_value_def Let_def)
      have below: "\<forall>j<mid + 1. k (xs ! j) \<le> k pivot"
      proof (intro allI impI)
        fix j assume "j < mid + 1"
        then have "k (xs ! j) \<le> k (xs ! mid)"
          using mono [of j mid] mid(3) by simp
        with geq show "k (xs ! j) \<le> k pivot" by simp
      qed
      have "insertion_point cmp pivot xs (mid + 1) right \<le> length xs
         \<and> (\<forall>j<insertion_point cmp pivot xs (mid + 1) right. k (xs ! j) \<le> k pivot)
         \<and> (\<forall>j. insertion_point cmp pivot xs (mid + 1) right \<le> j \<and> j < length xs
               \<longrightarrow> k pivot < k (xs ! j))"
      proof (rule "1.IH"(2) [OF True mid_def])
        show "\<not> cmp_value (cmp pivot (xs ! mid)) < 0"
          using geq by (simp add: cmp_mid cmp_value_def)
      qed (use "1.prems" mid below in simp_all)
      then show ?thesis unfolding step .
    qed
  qed
qed

lemma binary_insert_sort_key:
  assumes "\<And>y. y \<in> set pre \<Longrightarrow> cmp pivot y = Some (k pivot - k y)"
  shows "binary_insert cmp (sort_key k pre) pivot = sort_key k (pre @ [pivot])"
proof -
  define S where "S = sort_key k pre"
  define r where "r = insertion_point cmp pivot S 0 (length S)"
  have sorted_S: "sorted (map k S)"
    by (simp add: S_def)
  have "r \<le> length S \<and> (\<forall>j<r. k (S ! j) \<le> k pivot)
      \<and> (\<forall>j. r \<le> j \<and> j < length S \<longrightarrow> k pivot < k (S ! j))"
    unfolding r_def
    by (rule insertion_point_spec [OF sorted_S]) (simp_all add: S_def assms)
  then have r: "r \<le> length S" and lo: "\<forall>j<r. k (S ! j) \<le> k pivot"
    and hi: "\<forall>j. r \<le> j \<and> j < length S \<longrightarrow> k pivot < k (S ! j)"
    by blast+
  have below: "k x \<le> k pivot" if "x \<in> set (take r S)" for x
  proof -
    from that obtain j where "j < length (take r S)" "x = take r S ! j"
      by (auto simp: in_set_conv_nth)
    then show ?thesis using lo by simp
  qed
  have above: "k pivot < k y" if "y \<in> set (drop r S)" for y
  proof -
    from that obtain j where "j < length (drop r S)" "y = drop r S ! j"
      by (auto simp: in_set_conv_nth)
    then show ?thesis using hi r by simp
  qed
  have split: "take r S @ drop r S = S"
    by simp
  have sorted_parts: "sorted (map k (take r S))" "sorted (map k (drop r S))"
    using sorted_S by (simp_all add: sorted_wrt_take sorted_wrt_drop sorted_map)
  have srt: "sorted (map k (take r S @ pivot # drop r S))"
    using sorted_parts below above
    by (auto simp: sorted_append dest: order_less_imp_le intro: order_trans less_imp_le)
  have stable: "filter (\<lambda>x. k z = k x) S = filter (\<lambda>x. k z = k x) pre" for z
  proof -
    have "filter (\<lambda>x. k x = k z) (sort_key k pre) = filter (\<lambda>x. k x = k z) pre"
      by (rule sort_key_stable)
    then show ?thesis
      by (simp add: S_def eq_commute)
  qed
  have parts: "filter P (take r S) @ filter P (drop r S) = filter P S" for P
    by (metis filter_append split)
  have "sort_key k (pre @ [pivot]) = take r S @ pivot # drop r S"
  proof (rule properties_for_sort_key)
    have "mset (take r S) + mset (drop r S) = mset pre"
      by (simp add: S_def flip: mset_append)
    then show "mset (take r S @ pivot # drop r S) = mset (pre @ [pivot])"
      by simp
  next
    fix z
    show "filter (\<lambda>x. k z = k x) (take r S @ pivot # drop r S)
        = filter (\<lambda>x. k z = k x) (pre @ [pivot])"
    proof (cases "k z = k pivot")
      case True
      have "k z \<noteq> k y" if "y \<in> set (drop r S)" for y
        using above [OF that] True by simp
      then have "filter (\<lambda>x. k z = k x) (drop r S) = []"
        by (simp add: filter_empty_conv)
      with parts [of "\<lambda>x. k z = k x"] have "filter (\<lambda>x. k z = k x) (take r S)
          = filter (\<lambda>x. k z = k x) pre"
        by (simp add: stable)
      then show ?thesis
        using True \<open>filter (\<lambda>x. k z = k x) (drop r S) = []\<close> by simp
    next
      case False
      then show ?thesis
        using parts [of "\<lambda>x. k z = k x"] by (simp add: stable)
    qed
  next
    show "sorted (map k (take r S @ pivot # drop r S))"
      by (rule srt)
  qed
  then show ?thesis
    by (simp add: binary_insert_def Let_def S_def r_def)
qed

lemma foldl_binary_insert_sort_key:
  assumes "\<And>a b. a \<in> set pre \<union> set rest \<Longrightarrow> b \<in> set pre \<union> set rest
             \<Longrightarrow> cmp a b = Some (k a - k b)"
  shows "foldl (binary_insert cmp) (sort_key k pre) rest = sort_key k (pre @ rest)"
  using assms
proof (induction rest arbitrary: pre)
  case Nil
  then show ?case by simp
next
  case (Cons pivot rest)
  have "binary_insert cmp (sort_key k pre) pivot = sort_key k (pre @ [pivot])"
    by (rule binary_insert_sort_key) (simp add: Cons.prems)
  moreover have "foldl (binary_insert cmp) (sort_key k (pre @ [pivot])) rest
      = sort_key k ((pre @ [pivot]) @ rest)"
    by (rule Cons.IH) (use Cons.prems in auto)
  ultimately show ?case
    by simp
qed

text \<open>
  The leading run. An ascending run is sorted as it is; a descending run descends
  strictly, so its reversal is its stable sort.
\<close>

lemma extend_run_le: "extend_run cmp d prev rest \<le> length rest"
  by (induction rest arbitrary: prev) (simp_all add: Let_def)

lemma extend_run_ascending:
  assumes "\<And>a b. a \<in> set (prev # rest) \<Longrightarrow> b \<in> set (prev # rest)
             \<Longrightarrow> cmp a b = Some (k a - k b)"
  shows "sorted (map k (prev # take (extend_run cmp False prev rest) rest))"
  using assms
proof (induction rest arbitrary: prev)
  case Nil
  then show ?case by simp
next
  case (Cons cur rest)
  have c: "cmp cur prev = Some (k cur - k prev)"
    using Cons.prems by simp
  show ?case
  proof (cases "k cur < k prev")
    case True
    then show ?thesis by (simp add: c cmp_value_def)
  next
    case False
    have "sorted (map k (cur # take (extend_run cmp False cur rest) rest))"
      by (rule Cons.IH) (use Cons.prems in auto)
    with False show ?thesis
      by (auto simp: c cmp_value_def)
  qed
qed

lemma extend_run_descending:
  assumes "\<And>a b. a \<in> set (prev # rest) \<Longrightarrow> b \<in> set (prev # rest)
             \<Longrightarrow> cmp a b = Some (k a - k b)"
  shows "sorted_wrt (\<lambda>a b. k b < k a) (prev # take (extend_run cmp True prev rest) rest)"
  using assms
proof (induction rest arbitrary: prev)
  case Nil
  then show ?case by simp
next
  case (Cons cur rest)
  have c: "cmp cur prev = Some (k cur - k prev)"
    using Cons.prems by simp
  show ?case
  proof (cases "k cur < k prev")
    case False
    then show ?thesis by (simp add: c cmp_value_def)
  next
    case True
    have IH: "sorted_wrt (\<lambda>a b. k b < k a) (cur # take (extend_run cmp True cur rest) rest)"
      by (rule Cons.IH) (use Cons.prems in auto)
    then have "\<forall>y\<in>set (take (extend_run cmp True cur rest) rest). k y < k prev"
      using True by auto
    with IH True show ?thesis
      by (simp add: c cmp_value_def)
  qed
qed

lemma filter_distinct_key:
  "sorted_wrt (\<lambda>a b. k a \<noteq> k b) xs \<Longrightarrow> z \<in> set xs \<Longrightarrow> filter (\<lambda>x. k z = k x) xs = [z]"
proof (induction xs)
  case Nil
  then show ?case by simp
next
  case (Cons x xs)
  show ?case
  proof (cases "z = x")
    case True
    have "filter (\<lambda>y. k x = k y) xs = []"
      using Cons.prems(1) by (auto simp: filter_empty_conv)
    with True show ?thesis by simp
  next
    case False
    with Cons.prems have "z \<in> set xs" and "k z \<noteq> k x" by auto
    moreover from Cons.prems(1) have "sorted_wrt (\<lambda>a b. k a \<noteq> k b) xs" by simp
    ultimately show ?thesis using Cons.IH by simp
  qed
qed

lemma sort_key_descending_run:
  assumes "sorted_wrt (\<lambda>a b. k b < k a) xs"
  shows "sort_key k xs = rev xs"
proof (rule properties_for_sort_key)
  show "mset (rev xs) = mset xs" by simp
next
  have up: "sorted_wrt (\<lambda>a b. k a < k b) (rev xs)"
    using assms by (simp add: sorted_wrt_rev)
  then show "sorted (map k (rev xs))"
    by (simp add: sorted_map) (rule sorted_wrt_mono_rel [rotated], assumption, simp)
  fix z
  assume z: "z \<in> set (rev xs)"
  have "sorted_wrt (\<lambda>a b. k a \<noteq> k b) xs"
    by (rule sorted_wrt_mono_rel [OF _ assms]) simp
  moreover have "sorted_wrt (\<lambda>a b. k a \<noteq> k b) (rev xs)"
    by (rule sorted_wrt_mono_rel [OF _ up]) simp
  ultimately show "filter (\<lambda>x. k z = k x) (rev xs) = filter (\<lambda>x. k z = k x) xs"
    using z filter_distinct_key [of k xs z] filter_distinct_key [of k "rev xs" z]
    by (simp only: set_rev)
qed

lemma CountAndMakeRun_sort_key:
  assumes key: "\<And>a b. a \<in> set xs \<Longrightarrow> b \<in> set xs \<Longrightarrow> cmp a b = Some (k a - k b)"
    and len: "2 \<le> length xs"
    and run: "CountAndMakeRun cmp xs = (workArray, n)"
  shows "take n workArray = sort_key k (take n xs) \<and> drop n workArray = drop n xs"
proof -
  from len obtain hi lo rest where xs: "xs = hi # lo # rest"
    by (cases xs; cases "tl xs") auto
  define d where "d = (cmp_value (cmp lo hi) < 0)"
  define e where "e = extend_run cmp d lo rest"
  have unfolded: "CountAndMakeRun cmp xs =
      (if d then rev (take (2 + e) xs) @ drop (2 + e) xs else xs, 2 + e)"
    unfolding xs d_def e_def by (simp only: CountAndMakeRun_def list.case Let_def)
  have n: "n = 2 + e" and wa: "workArray = (if d then rev (take n xs) @ drop n xs else xs)"
    using run unfolding unfolded by auto
  have e_le: "e \<le> length rest"
    unfolding e_def by (rule extend_run_le)
  have prefix: "take n xs = hi # lo # take e rest"
    by (simp add: n xs)
  have c: "cmp lo hi = Some (k lo - k hi)"
    using key by (simp add: xs)
  have tail_key: "\<And>a b. a \<in> set (lo # rest) \<Longrightarrow> b \<in> set (lo # rest)
      \<Longrightarrow> cmp a b = Some (k a - k b)"
    using key by (simp add: xs)
  show ?thesis
  proof (cases d)
    case False
    then have "k hi \<le> k lo"
      by (simp add: d_def c cmp_value_def)
    moreover have "sorted (map k (lo # take e rest))"
      using extend_run_ascending [OF tail_key] False by (simp add: e_def)
    ultimately have "sorted (map k (take n xs))"
      by (auto simp: prefix)
    then have "sort_key k (take n xs) = take n xs"
      by (rule sort_key_id_if_sorted)
    with False show ?thesis
      by (simp add: wa)
  next
    case True
    then have "k lo < k hi"
      by (simp add: d_def c cmp_value_def)
    moreover have tail: "sorted_wrt (\<lambda>a b. k b < k a) (lo # take e rest)"
      using extend_run_descending [OF tail_key] True by (simp add: e_def)
    ultimately have "sorted_wrt (\<lambda>a b. k b < k a) (take n xs)"
      by (auto simp: prefix)
    then have "sort_key k (take n xs) = rev (take n xs)"
      by (rule sort_key_descending_run)
    moreover have "length (take n xs) = n"
      using e_le by (simp add: n xs)
    ultimately show ?thesis
      using True by (simp add: wa)
  qed
qed

text \<open>Both halves of the contract.\<close>

lemma v8_sort_sort_key:
  assumes "\<And>a b. a \<in> set xs \<Longrightarrow> b \<in> set xs \<Longrightarrow> cmp a b = Some (k a - k b)"
  shows "v8_sort cmp xs = sort_key k xs"
proof (cases "length xs < 2")
  case True
  then have "sorted (map k xs)"
    by (cases xs; cases "tl xs") auto
  then have "sort_key k xs = xs"
    by (rule sort_key_id_if_sorted)
  with True show ?thesis
    by (simp add: v8_sort_def)
next
  case False
  obtain workArray n where run: "CountAndMakeRun cmp xs = (workArray, n)"
    by (cases "CountAndMakeRun cmp xs")
  have parts: "take n workArray = sort_key k (take n xs)" "drop n workArray = drop n xs"
    using CountAndMakeRun_sort_key [OF assms _ run] False by simp_all
  have "foldl (binary_insert cmp) (sort_key k (take n xs)) (drop n xs)
      = sort_key k (take n xs @ drop n xs)"
  proof (rule foldl_binary_insert_sort_key)
    fix a b
    assume "a \<in> set (take n xs) \<union> set (drop n xs)" "b \<in> set (take n xs) \<union> set (drop n xs)"
    then have "a \<in> set xs" "b \<in> set xs"
      by (auto dest: in_set_takeD in_set_dropD)
    then show "cmp a b = Some (k a - k b)"
      by (rule assms)
  qed
  then show ?thesis
    using False by (simp add: v8_sort_def run BinaryInsertionSort_def parts)
qed

lemma ecma_sort_v8_sort: "ecma_sort v8_sort"
  unfolding ecma_sort_def
proof (intro allI conjI impI)
  fix cmp :: "'a \<Rightarrow> 'a \<Rightarrow> int option" and xs :: "'a list"
  show "mset (v8_sort cmp xs) = mset xs"
    by (rule mset_v8_sort)
next
  fix cmp :: "'a \<Rightarrow> 'a \<Rightarrow> int option" and xs :: "'a list" and k :: "'a \<Rightarrow> int"
  assume "\<forall>a\<in>set xs. \<forall>b\<in>set xs. cmp a b = Some (k a - k b)"
  then show "v8_sort cmp xs = sort_key k xs"
    by (intro v8_sort_sort_key) simp
qed

text \<open>
  With a timestamp that is no date the comparator is not the difference of a key. On
  trades of the times \<open>1\<close>, \<open>2\<close>, none and \<open>2\<close> the leading run is the first two trades,
  descending, and is reversed; the third trade compares as equal to every other and is
  put last, and the fourth goes behind the trade of its own time.
\<close>

lemma v8_sort_not_a_date:
  "v8_sort (newestFirst sample_getTime)
     [mk_trade ''t1'' ''S0'' ''buy'' 1 1 None, mk_trade ''t2'' ''S1'' ''buy'' 1 1 None,
      mk_trade ''bad'' ''S2'' ''buy'' 1 1 None, mk_trade ''t2'' ''S3'' ''buy'' 1 1 None]
   = [mk_trade ''t2'' ''S1'' ''buy'' 1 1 None, mk_trade ''t2'' ''S3'' ''buy'' 1 1 None,
      mk_trade ''t1'' ''S0'' ''buy'' 1 1 None, mk_trade ''bad'' ''S2'' ''buy'' 1 1 None]"
  by code_simp

subsection \<open>The sorted copy and its pages\<close>

lemma ecma_sort_sort_key:
  assumes "ecma_sort srt"
    and "\<And>a b. a \<in> set xs \<Longrightarrow> b \<in> set xs \<Longrightarrow> cmp a b = Some (k a - k b)"
  shows "srt cmp xs = sort_key k xs"
  using assms(1) [unfolded ecma_sort_def, THEN spec, THEN spec, THEN conjunct2, rule_format,
      of xs cmp k]
    assms(2)
  by blast

lemma mset_sortedTrades:
  "ecma_sort srt \<Longrightarrow> mset (sortedTrades srt getTime trades) = mset trades"
  by (simp add: ecma_sort_def sortedTrades_def)

lemma sortedTrades_stable:
  assumes "ecma_sort srt"
    and "list_all (\<lambda>t. getTime (timestamp t) \<noteq> None) trades"
  shows "sortedTrades srt getTime trades = sort_key (\<lambda>t. - time_of getTime t) trades"
proof -
  have "newestFirst getTime a b = Some (- time_of getTime a - (- time_of getTime b))"
    if "a \<in> set trades" and "b \<in> set trades" for a b
  proof -
    from that assms(2) have "getTime (timestamp a) \<noteq> None" and "getTime (timestamp b) \<noteq> None"
      by (simp_all add: list_all_iff)
    then obtain ta tb
      where "getTime (timestamp a) = Some ta" and "getTime (timestamp b) = Some tb"
      by blast
    then show ?thesis
      by (simp add: newestFirst_def time_of_def)
  qed
  then show ?thesis
    unfolding sortedTrades_def by (rule ecma_sort_sort_key [OF assms(1)])
qed

lemma js_slice_page:
  assumes "0 \<le> k" "0 \<le> n"
  shows "js_slice xs k (k + n) = take (nat n) (drop (nat k) xs)"
proof (cases "k \<le> int (length xs)")
  case True
  show ?thesis
  proof (cases "k + n \<le> int (length xs)")
    case True
    with assms \<open>k \<le> int (length xs)\<close> show ?thesis
      by (simp add: js_slice_def Let_def min_def)
  next
    case False
    with assms \<open>k \<le> int (length xs)\<close> have "nat n \<ge> length xs - nat k"
      by linarith
    with assms \<open>k \<le> int (length xs)\<close> False show ?thesis
      by (simp add: js_slice_def Let_def min_def)
  qed
next
  case False
  with assms show ?thesis
    by (simp add: js_slice_def Let_def min_def)
qed

lemma sort_key_newest_first:
  assumes "list_all (\<lambda>t. getTime (timestamp t) \<noteq> None) trades"
  shows "sorted_wrt (not_older getTime) (sort_key (\<lambda>t. - time_of getTime t) trades)"
proof -
  let ?k = "\<lambda>t. - time_of getTime t"
  have "sorted (map ?k (sort_key ?k trades))"
    by (rule sorted_sort_key)
  then have srt: "sorted_wrt (\<lambda>a b. ?k a \<le> ?k b) (sort_key ?k trades)"
    by (simp add: sorted_map)
  show ?thesis
  proof (rule sorted_wrt_mono_rel [OF _ srt])
    fix a b
    assume "a \<in> set (sort_key ?k trades)" and "b \<in> set (sort_key ?k trades)"
      and le: "?k a \<le> ?k b"
    then have "a \<in> set trades" and "b \<in> set trades"
      by simp_all
    with assms have "getTime (timestamp a) \<noteq> None" and "getTime (timestamp b) \<noteq> None"
      by (simp_all add: list_all_iff)
    then obtain ta tb
      where "getTime (timestamp a) = Some ta" and "getTime (timestamp b) = Some tb"
      by blast
    with le show "not_older getTime a b"
      by (simp add: not_older_def time_of_def)
  qed
qed

lemma sorted_wrt_take_drop: "sorted_wrt P xs \<Longrightarrow> sorted_wrt P (take n (drop k xs))"
  by (simp add: sorted_wrt_drop sorted_wrt_take)

text \<open>
  Claim C7 as stated fails where a timestamp is no date. With the sort of V8 and the
  trades \<open>t1\<close>, \<open>bad\<close>, \<open>t2\<close> in that order, the middle timestamp not a date, every comparison
  with the middle trade is \<open>NaN\<close>: the leading run is the whole array and page \<open>1\<close> is the
  list as it came, the trade of time \<open>1\<close> ahead of the trade of time \<open>2\<close>, so the page is not
  ordered newest first.
\<close>

theorem paginatedTrades_counterexample:
  "paginatedTrades v8_sort sample_getTime
     (Some [mk_trade ''t1'' ''BTCUSDT'' ''buy'' 100 1 (Some ''open''),
            mk_trade ''bad'' ''BTCUSDT'' ''sell'' 110 1 (Some ''close''),
            mk_trade ''t2'' ''BTCUSDT'' ''buy'' 105 1 (Some ''open'')]) 1
     = [mk_trade ''t1'' ''BTCUSDT'' ''buy'' 100 1 (Some ''open''),
        mk_trade ''bad'' ''BTCUSDT'' ''sell'' 110 1 (Some ''close''),
        mk_trade ''t2'' ''BTCUSDT'' ''buy'' 105 1 (Some ''open'')]
   \<and> sample_getTime ''t1'' = Some 1
   \<and> sample_getTime ''bad'' = None
   \<and> sample_getTime ''t2'' = Some 2
   \<and> \<not> not_older sample_getTime
         (mk_trade ''t1'' ''BTCUSDT'' ''buy'' 100 1 (Some ''open''))
         (mk_trade ''t2'' ''BTCUSDT'' ''buy'' 105 1 (Some ''open''))
   \<and> \<not> sorted_wrt (not_older sample_getTime)
         (paginatedTrades v8_sort sample_getTime
            (Some [mk_trade ''t1'' ''BTCUSDT'' ''buy'' 100 1 (Some ''open''),
                   mk_trade ''bad'' ''BTCUSDT'' ''sell'' 110 1 (Some ''close''),
                   mk_trade ''t2'' ''BTCUSDT'' ''buy'' 105 1 (Some ''open'')]) 1)"
  by code_simp

text \<open>
  Claim C7, amended. For a non-empty trade list and a page \<open>p \<ge> 1\<close>, the displayed page is
  the slice from \<open>(p - 1) * 5\<close> up to \<open>p * 5\<close> of \<open>sortedTrades\<close>, the copy of the trade list
  that \<open>Array.prototype.sort\<close> returns for the comparator of the timestamps. The copy is a
  rearrangement of the trade list, so a page has at most five trades. When every
  timestamp is a date, the copy is the trade list sorted by descending time, trades of
  one time in their order of the list, so it and every page are ordered newest first.
  This holds with every sort that keeps the contract of ECMAScript.
\<close>

theorem paginatedTrades_is_sorted_slice:
  assumes "ecma_sort srt" and "trades \<noteq> []" and "1 \<le> p"
  shows "paginatedTrades srt getTime (Some trades) p
           = take 5 (drop (nat ((p - 1) * 5)) (sortedTrades srt getTime trades))
         \<and> mset (sortedTrades srt getTime trades) = mset trades
         \<and> length (paginatedTrades srt getTime (Some trades) p) \<le> 5
         \<and> (list_all (\<lambda>t. getTime (timestamp t) \<noteq> None) trades \<longrightarrow>
              sortedTrades srt getTime trades = sort_key (\<lambda>t. - time_of getTime t) trades
              \<and> sorted_wrt (not_older getTime) (sortedTrades srt getTime trades)
              \<and> sorted_wrt (not_older getTime) (paginatedTrades srt getTime (Some trades) p))"
proof -
  have page: "paginatedTrades srt getTime (Some trades) p
                = take 5 (drop (nat ((p - 1) * 5)) (sortedTrades srt getTime trades))"
    using assms(3) js_slice_page [of "(p - 1) * 5" 5 "sortedTrades srt getTime trades"]
    by (simp add: paginatedTrades_def TRADES_PER_PAGE_def Let_def)
  have perm: "mset (sortedTrades srt getTime trades) = mset trades"
    using assms(1) by (rule mset_sortedTrades)
  have len: "length (paginatedTrades srt getTime (Some trades) p) \<le> 5"
    by (simp add: page)
  have "sortedTrades srt getTime trades = sort_key (\<lambda>t. - time_of getTime t) trades
      \<and> sorted_wrt (not_older getTime) (sortedTrades srt getTime trades)
      \<and> sorted_wrt (not_older getTime) (paginatedTrades srt getTime (Some trades) p)"
    if parsed: "list_all (\<lambda>t. getTime (timestamp t) \<noteq> None) trades"
  proof -
    have stable: "sortedTrades srt getTime trades = sort_key (\<lambda>t. - time_of getTime t) trades"
      using assms(1) parsed by (rule sortedTrades_stable)
    have srt: "sorted_wrt (not_older getTime) (sortedTrades srt getTime trades)"
      unfolding stable using parsed by (rule sort_key_newest_first)
    then have "sorted_wrt (not_older getTime) (paginatedTrades srt getTime (Some trades) p)"
      unfolding page by (rule sorted_wrt_take_drop)
    with stable srt show ?thesis by simp
  qed
  with page perm len show ?thesis
    by blast
qed

lemma sample_trades_parse:
  "list_all (\<lambda>t. sample_getTime (timestamp t) \<noteq> None) sample_trades"
  by (simp add: sample_trades_def mk_trade_def sample_getTime_def)

lemma sample_trades_sorted:
  "sortedTrades v8_sort sample_getTime sample_trades =
     [mk_trade ''t7'' ''BTCUSDT'' ''sell'' 110 1 (Some ''close''),
      mk_trade ''t6'' ''SOLUSDT'' ''sell'' 50 3 (Some ''open''),
      mk_trade ''t5'' ''BTCUSDT'' ''buy'' 105 1 (Some ''open''),
      mk_trade ''t4'' ''SOLUSDT'' ''buy'' 40 3 (Some ''close''),
      mk_trade ''t3'' ''BTCUSDT'' ''buy'' 100 1 (Some ''open''),
      mk_trade ''t2'' ''ETHUSDT'' ''sell'' 12 2 (Some ''close''),
      mk_trade ''t1'' ''ETHUSDT'' ''buy'' 10 2 (Some ''open'')]"
  by code_simp

theorem paginatedTrades_is_sorted_slice_witness:
  "ecma_sort (v8_sort :: Trade sort_engine)
   \<and> sample_trades \<noteq> [] \<and> (1::int) \<le> 2
   \<and> list_all (\<lambda>t. sample_getTime (timestamp t) \<noteq> None) sample_trades
   \<and> paginatedTrades v8_sort sample_getTime (Some sample_trades) 2
       = [mk_trade ''t2'' ''ETHUSDT'' ''sell'' 12 2 (Some ''close''),
          mk_trade ''t1'' ''ETHUSDT'' ''buy'' 10 2 (Some ''open'')]
   \<and> length (paginatedTrades v8_sort sample_getTime (Some sample_trades) 2) \<le> 5
   \<and> sorted_wrt (not_older sample_getTime)
       (paginatedTrades v8_sort sample_getTime (Some sample_trades) 2)"
proof -
  have ne: "sample_trades \<noteq> []"
    by (simp add: sample_trades_def)
  have p: "(1::int) \<le> 2"
    by simp
  note slice = paginatedTrades_is_sorted_slice
    [OF ecma_sort_v8_sort ne p, where getTime = sample_getTime]
  from slice have page: "paginatedTrades v8_sort sample_getTime (Some sample_trades) 2
      = take 5 (drop (nat ((2 - 1) * 5)) (sortedTrades v8_sort sample_getTime sample_trades))"
    by (rule conjunct1)
  have shown: "paginatedTrades v8_sort sample_getTime (Some sample_trades) 2
      = [mk_trade ''t2'' ''ETHUSDT'' ''sell'' 12 2 (Some ''close''),
         mk_trade ''t1'' ''ETHUSDT'' ''buy'' 10 2 (Some ''open'')]"
    unfolding page sample_trades_sorted by simp
  from slice sample_trades_parse
  have "length (paginatedTrades v8_sort sample_getTime (Some sample_trades) 2) \<le> 5"
    and "sorted_wrt (not_older sample_getTime)
           (paginatedTrades v8_sort sample_getTime (Some sample_trades) 2)"
    by blast+
  with ecma_sort_v8_sort [where ?'a = Trade] ne p sample_trades_parse shown show ?thesis
    by blast
qed




subsection \<open>Profit and loss per trade\<close>


text \<open>
  Claim C2 as stated fails on the display code, which works out a value for each trade
  row from the row's own price, quantity and side, and reads the price of the position
  only. One long position of quantity \<open>2\<close>, bought as \<open>1\<close> at \<open>100\<close> and \<open>1\<close> at \<open>200\<close> (entry
  price \<open>150\<close>) and marked at \<open>120\<close>, is shown as \<open>20\<close> on one row and \<open>-80\<close> on the other,
  where the claim promises \<open>(120 - 150) * 2 = -60\<close> for the position. And a row without a
  \<open>type\<close> that sells \<open>1\<close> at \<open>100\<close> while the bot holds a long position marked at \<open>106\<close> is
  shown with the formula of a short, \<open>(100 - 106) * 1 = -6\<close>, flagged live.
\<close>

theorem calculateTradePnL_unrealized_counterexample:
  "calculateTradePnL
     (Some [mk_trade ''t1'' ''BTCUSDT'' ''buy'' 100 1 (Some ''open''),
            mk_trade ''t2'' ''BTCUSDT'' ''buy'' 200 1 (Some ''open'')])
     (Some (sample_status [sample_position ''BTCUSDT'' 2 120 ''long'']))
     (mk_trade ''t1'' ''BTCUSDT'' ''buy'' 100 1 (Some ''open'')) 0
     = \<lparr>res_pnl = Some 20, isLive = True\<rparr>
   \<and> calculateTradePnL
       (Some [mk_trade ''t1'' ''BTCUSDT'' ''buy'' 100 1 (Some ''open''),
              mk_trade ''t2'' ''BTCUSDT'' ''buy'' 200 1 (Some ''open'')])
       (Some (sample_status [sample_position ''BTCUSDT'' 2 120 ''long'']))
       (mk_trade ''t2'' ''BTCUSDT'' ''buy'' 200 1 (Some ''open'')) 1
       = \<lparr>res_pnl = Some (- 80), isLive = True\<rparr>
   \<and> (120 - (100 * 1 + 200 * 1) / (1 + 1)) * 2 = (- 60 :: number)
   \<and> Some (20 :: number) \<noteq> Some (- 60) \<and> Some (- 80 :: number) \<noteq> Some (- 60)
   \<and> pos_side (sample_position ''BTCUSDT'' 1 106 ''long'') = ''long''
   \<and> calculateTradePnL
       (Some [mk_trade ''t1'' ''BTCUSDT'' ''sell'' 100 1 None])
       (Some (sample_status [sample_position ''BTCUSDT'' 1 106 ''long'']))
       (mk_trade ''t1'' ''BTCUSDT'' ''sell'' 100 1 None) 0
       = \<lparr>res_pnl = Some ((100 - 106) * 1), isLive = True\<rparr>
   \<and> Some ((100 - 106) * 1 :: number) \<noteq> Some ((106 - 100) * 1)"
  by (simp add: calculateTradePnL_def openPosition_def getPositionStatus_def mk_trade_def
      sample_status_def sample_position_def botStatus_constants)

text \<open>
  Claim C2, amended. The unrealized value is shown per trade row: for an opening trade
  (\<open>type\<close> is \<open>open\<close>) without a nonzero \<open>pnl\<close> of its own, while the bot status holds a
  position of the trade's symbol, the value is \<open>(m - e) * q\<close> for a buy (the trade opened
  a long) and \<open>(e - m) * q\<close> for a sell (it opened a short), flagged live, with \<open>e\<close> the
  price and \<open>q\<close> the quantity of the trade and \<open>m\<close> the price of the first position of
  that symbol. The quantity and the side of the position are not read.
\<close>

theorem calculateTradePnL_unrealized:
  assumes "trades = Some ts"
    and "trade_pnl trade = None \<or> trade_pnl trade = Some 0"
    and "trade_type trade = Some TRADE_TYPE_OPEN"
    and "botStatus = Some st"
    and "find (\<lambda>pos. pos_symbol pos = symbol trade) (positions st) = Some position"
  shows "(side trade = TRADE_SIDE_BUY \<longrightarrow>
            calculateTradePnL trades botStatus trade index
              = \<lparr>res_pnl = Some ((pos_price position - price trade) * quantity trade),
                 isLive = True\<rparr>)
         \<and> (side trade = TRADE_SIDE_SELL \<longrightarrow>
            calculateTradePnL trades botStatus trade index
              = \<lparr>res_pnl = Some ((price trade - pos_price position) * quantity trade),
                 isLive = True\<rparr>)
         \<and> calculateTradePnL trades botStatus trade index
             = calculateTradePnL trades
                 (Some (st\<lparr>positions :=
                    map (\<lambda>pos. pos\<lparr>pos_quantity := qty pos, pos_side := sd pos\<rparr>)
                      (positions st)\<rparr>))
                 trade index"
proof -
  let ?st' = "st\<lparr>positions :=
    map (\<lambda>pos. pos\<lparr>pos_quantity := qty pos, pos_side := sd pos\<rparr>) (positions st)\<rparr>"
  have status: "getPositionStatus bs trade = POSITION_STATUS_OPEN" for bs
    using assms(3) by (simp add: getPositionStatus_def)
  have found: "openPosition botStatus trade = Some position"
    using status assms(4,5) by (simp add: openPosition_def)
  have "find (\<lambda>pos. pos_symbol pos = symbol trade)
          (map (\<lambda>pos. pos\<lparr>pos_quantity := qty pos, pos_side := sd pos\<rparr>) ps)
        = map_option (\<lambda>pos. pos\<lparr>pos_quantity := qty pos, pos_side := sd pos\<rparr>)
            (find (\<lambda>pos. pos_symbol pos = symbol trade) ps)" for ps
    by (induction ps) simp_all
  then have found': "openPosition (Some ?st') trade
      = Some (position\<lparr>pos_quantity := qty position, pos_side := sd position\<rparr>)"
    using status assms(5) by (simp add: openPosition_def)
  have buy: "side trade = TRADE_SIDE_BUY \<longrightarrow>
      calculateTradePnL trades botStatus trade index
        = \<lparr>res_pnl = Some ((pos_price position - price trade) * quantity trade),
           isLive = True\<rparr>"
    using assms(1,2) found by (auto simp: calculateTradePnL_def Let_def)
  have sell: "side trade = TRADE_SIDE_SELL \<longrightarrow>
      calculateTradePnL trades botStatus trade index
        = \<lparr>res_pnl = Some ((price trade - pos_price position) * quantity trade),
           isLive = True\<rparr>"
    using assms(1,2) found by (auto simp: calculateTradePnL_def Let_def botStatus_constants)
  have same: "calculateTradePnL trades botStatus trade index
      = calculateTradePnL trades (Some ?st') trade index"
    using assms(1) found found' by (simp add: calculateTradePnL_def Let_def)
  from buy sell same show ?thesis
    by blast
qed

theorem calculateTradePnL_unrealized_witness:
  "trade_pnl (mk_trade ''t5'' ''BTCUSDT'' ''buy'' 105 1 (Some ''open'')) = None
   \<and> trade_type (mk_trade ''t5'' ''BTCUSDT'' ''buy'' 105 1 (Some ''open''))
       = Some TRADE_TYPE_OPEN
   \<and> find (\<lambda>pos. pos_symbol pos = ''BTCUSDT'')
        (positions (sample_status [sample_position ''BTCUSDT'' 1 120 ''long'']))
        = Some (sample_position ''BTCUSDT'' 1 120 ''long'')
   \<and> calculateTradePnL (Some sample_trades)
        (Some (sample_status [sample_position ''BTCUSDT'' 1 120 ''long'']))
        (mk_trade ''t5'' ''BTCUSDT'' ''buy'' 105 1 (Some ''open'')) 2
        = \<lparr>res_pnl = Some ((120 - 105) * 1), isLive = True\<rparr>
   \<and> calculateTradePnL (Some sample_trades)
        (Some (sample_status [sample_position ''SOLUSDT'' 3 45 ''short'']))
        (mk_trade ''t6'' ''SOLUSDT'' ''sell'' 50 3 (Some ''open'')) 1
        = \<lparr>res_pnl = Some ((50 - 45) * 3), isLive = True\<rparr>"
proof -
  let ?t = "mk_trade ''t5'' ''BTCUSDT'' ''buy'' 105 1 (Some ''open'')"
  let ?pos = "sample_position ''BTCUSDT'' 1 120 ''long''"
  let ?st = "sample_status [?pos]"
  let ?t' = "mk_trade ''t6'' ''SOLUSDT'' ''sell'' 50 3 (Some ''open'')"
  let ?pos' = "sample_position ''SOLUSDT'' 3 45 ''short''"
  let ?st' = "sample_status [?pos']"
  have a1: "Some sample_trades = Some sample_trades"
    by simp
  have a2: "trade_pnl ?t = None \<or> trade_pnl ?t = Some 0"
    "trade_pnl ?t' = None \<or> trade_pnl ?t' = Some 0"
    by (simp_all add: mk_trade_def)
  have a3: "trade_type ?t = Some TRADE_TYPE_OPEN" "trade_type ?t' = Some TRADE_TYPE_OPEN"
    by (simp_all add: mk_trade_def botStatus_constants)
  have a4: "Some ?st = Some ?st" "Some ?st' = Some ?st'"
    by simp_all
  have a5: "find (\<lambda>pos. pos_symbol pos = symbol ?t) (positions ?st) = Some ?pos"
    "find (\<lambda>pos. pos_symbol pos = symbol ?t') (positions ?st') = Some ?pos'"
    by (simp_all add: mk_trade_def sample_status_def sample_position_def)
  show ?thesis
    using calculateTradePnL_unrealized [OF a1 a2(1) a3(1) a4(1) a5(1),
        where index = 2 and qty = pos_quantity and sd = pos_side]
      calculateTradePnL_unrealized [OF a1 a2(2) a3(2) a4(2) a5(2),
        where index = 1 and qty = pos_quantity and sd = pos_side] a3(1) a5(1)
    by (simp add: mk_trade_def sample_position_def botStatus_constants)
qed


subsection \<open>Fetching the trades of a bot\<close>

text \<open>
  Claim C8 as stated fails: "returns the empty list exactly when the request fails with
  status 404" is false for a request that succeeds with an empty list of trades, which is
  returned unchanged.
\<close>

theorem fetchBotTrades_counterexample:
  "fetchBotTrades (\<lambda>path. Inr []) ''bot1'' = Inr []
   \<and> (\<lambda>path. Inr []) (''/bots/'' @ ''bot1'' @ ''/trades'')
       \<noteq> (Inl \<lparr>response_status = Some 404, message = ''Not Found''\<rparr>
            :: AxiosError + Trade list)"
  by (simp add: fetchBotTrades_def)

text \<open>
  Claim C8 as amended. For every bot id: a successful response is returned unchanged (an
  empty list included); a failed request gives the empty list exactly when its status is
  404; a failure with any other status, or with no response, is thrown again unchanged.
\<close>

theorem fetchBotTrades_cases:
  "(api_get (''/bots/'' @ botId @ ''/trades'') = Inr data \<longrightarrow>
      fetchBotTrades api_get botId = Inr data)
   \<and> (api_get (''/bots/'' @ botId @ ''/trades'') = Inl error \<longrightarrow>
        (fetchBotTrades api_get botId = Inr [] \<longleftrightarrow> response_status error = Some 404)
        \<and> (response_status error \<noteq> Some 404 \<longrightarrow> fetchBotTrades api_get botId = Inl error))"
  by (simp add: fetchBotTrades_def)

theorem fetchBotTrades_cases_witness:
  "fetchBotTrades (\<lambda>path. Inl \<lparr>response_status = Some 404, message = ''Not Found''\<rparr>)
     ''bot1'' = Inr []
   \<and> fetchBotTrades (\<lambda>path. Inl \<lparr>response_status = Some 500, message = ''Server Error''\<rparr>)
       ''bot1'' = Inl \<lparr>response_status = Some 500, message = ''Server Error''\<rparr>
   \<and> fetchBotTrades (\<lambda>path. Inl \<lparr>response_status = None, message = ''Network Error''\<rparr>)
       ''bot1'' = Inl \<lparr>response_status = None, message = ''Network Error''\<rparr>
   \<and> fetchBotTrades (\<lambda>path. Inr sample_trades) ''bot1'' = Inr sample_trades"
  using
    fetchBotTrades_cases [of "\<lambda>path. Inl \<lparr>response_status = Some 404, message = ''Not Found''\<rparr>"
      "''bot1''" "[]" "\<lparr>response_status = Some 404, message = ''Not Found''\<rparr>"]
    fetchBotTrades_cases [of "\<lambda>path. Inl \<lparr>response_status = Some 500, message = ''Server Error''\<rparr>"
      "''bot1''" "[]" "\<lparr>response_status = Some 500, message = ''Server Error''\<rparr>"]
    fetchBotTrades_cases [of "\<lambda>path. Inl \<lparr>response_status = None, message = ''Network Error''\<rparr>"
      "''bot1''" "[]" "\<lparr>response_status = None, message = ''Network Error''\<rparr>"]
    fetchBotTrades_cases [of "\<lambda>path. Inr sample_trades" "''bot1''" sample_trades]
  by simp

subsection \<open>Bot form validation\<close>

lemma sample_id_well_formed:
  "js_trim (map of_char ''bot_1'') \<noteq> [] \<and> id_pattern_test (map of_char ''bot_1'')"
  by (simp add: js_trim_def js_space_def id_pattern_test_def id_char_def)

lemma inherited_name_errors:
  "validateForm_errors sample_parse Create
     ((sample_form ''bot_1'' 10000 [])\<lparr>form_strategy := ''ReportStrategy''\<rparr>)
     (Some inherited_name_strategy) = []"
  using sample_id_well_formed
  by (simp add: validateForm_errors_def sample_form_def inherited_name_strategy_def
      validateParameter_def param_value_def object_prototype_members_def is_blank_def
      num_less_def Let_def)

lemma missing_parameter_errors:
  "validateForm_errors sample_parse Create (sample_form ''bot_1'' 10000 [])
     (Some sample_strategy)
     = [(''parameters.slow_period'', ParamRequired ''slow_period'')]"
  using sample_id_well_formed
  by (simp add: validateForm_errors_def sample_form_def sample_strategy_def
      validateParameter_def param_value_def object_prototype_members_def is_blank_def
      num_less_def Let_def)

text \<open>
  Claim C9 fails on the code at a schema parameter whose name every plain object
  inherits. The form is in create mode with a well-formed id, a strategy, a symbol and a
  positive balance; the schema of the strategy has one parameter, \<open>constructor\<close>, a string
  without a default, and the form parameters are the empty object, so the parameter is
  missing. The lookup \<open>formData.parameters['constructor']\<close> gives the inherited function, not
  \<open>undefined\<close>: no error is recorded, \<open>validateForm\<close> returns true and the create request is
  sent. The same form with the schema of \<open>sample_strategy\<close>, whose parameter \<open>slow_period\<close>
  has no default and is missing as well, is refused and sends nothing.
\<close>

theorem validateForm_inherited_name:
  "form_parameters ((sample_form ''bot_1'' 10000 [])\<lparr>form_strategy := ''ReportStrategy''\<rparr>) = []
   \<and> map (\<lambda>entry. (fst entry, schema_default (snd entry)))
        (parameter_schema inherited_name_strategy) = [(''constructor'', None)]
   \<and> param_value [] ''constructor'' = Obj
   \<and> validateForm_errors sample_parse Create
        ((sample_form ''bot_1'' 10000 [])\<lparr>form_strategy := ''ReportStrategy''\<rparr>)
        (Some inherited_name_strategy) = []
   \<and> validateForm sample_parse Create
        ((sample_form ''bot_1'' 10000 [])\<lparr>form_strategy := ''ReportStrategy''\<rparr>)
        (Some inherited_name_strategy)
   \<and> map (\<lambda>r. case r of CreateBotRequest d \<Rightarrow> (True, bd_parameters d)
                       | UpdateBotConfigRequest bid d \<Rightarrow> (False, ud_parameters d))
        (requests_sent
           (handleSubmit sample_parse Create []
              ((sample_form ''bot_1'' 10000 [])\<lparr>form_strategy := ''ReportStrategy''\<rparr>)
              (Some inherited_name_strategy) True))
       = [(True, [])]
   \<and> param_value [] ''slow_period'' = Undefined
   \<and> validateForm_errors sample_parse Create (sample_form ''bot_1'' 10000 [])
        (Some sample_strategy)
       = [(''parameters.slow_period'', ParamRequired ''slow_period'')]
   \<and> \<not> validateForm sample_parse Create (sample_form ''bot_1'' 10000 []) (Some sample_strategy)
   \<and> requests_sent
        (handleSubmit sample_parse Create [] (sample_form ''bot_1'' 10000 [])
           (Some sample_strategy) True) = []"
  by (simp add: handleSubmit_def validateForm_def inherited_name_errors
      missing_parameter_errors param_value_def object_prototype_members_def)
    (simp add: sample_form_def inherited_name_strategy_def)

section \<open>Verification of the engine model\<close>

subsection \<open>Limit orders\<close>

text \<open>
  Claim C4. A limit order evaluated against a bar: a buy fills exactly when the low of
  the bar is at most the limit price, a sell exactly when the high is at least the limit
  price; a sell fills at the limit price, a buy at no more than it.
\<close>

theorem limit_order_fills_iff:
  assumes "order_type ord = Limit" and "order_limit_price ord = Some limit_price"
  shows "(order_side ord = Buy \<longrightarrow>
            (fst (fill_order fc ord b) \<noteq> None \<longleftrightarrow> bar_low b \<le> limit_price)
            \<and> (\<forall>f. fst (fill_order fc ord b) = Some f \<longrightarrow> fill_price f \<le> limit_price))
         \<and> (order_side ord = Sell \<longrightarrow>
            (fst (fill_order fc ord b) \<noteq> None \<longleftrightarrow> limit_price \<le> bar_high b)
            \<and> (\<forall>f. fst (fill_order fc ord b) = Some f \<longrightarrow> fill_price f = limit_price))"
  using assms
  by (auto simp: fill_order_def limit_crosses_def make_fill_def split: if_splits)

theorem limit_order_fills_iff_witness:
  "order_type (sample_limit_order Buy 100) = Limit
   \<and> order_limit_price (sample_limit_order Buy 100) = Some 100
   \<and> order_side (sample_limit_order Buy 100) = Buy
   \<and> fst (fill_order sample_fill_config (sample_limit_order Buy 100)
            (sample_bar 1 102 105 95 101)) \<noteq> None
   \<and> fst (fill_order sample_fill_config (sample_limit_order Buy 100)
            (sample_bar 2 103 110 101 108)) = None
   \<and> map_option fill_price (fst (fill_order sample_fill_config (sample_limit_order Sell 100)
            (sample_bar 1 98 105 95 101))) = Some 100"
proof -
  have a1: "order_type (sample_limit_order sd 100) = Limit" for sd
    by (simp add: sample_limit_order_def)
  have a2: "order_limit_price (sample_limit_order sd 100) = Some 100" for sd
    by (simp add: sample_limit_order_def)
  have sides: "order_side (sample_limit_order sd 100) = sd" for sd
    by (simp add: sample_limit_order_def)
  have bars: "bar_low (sample_bar 1 102 105 95 101) = 95"
    "bar_low (sample_bar 2 103 110 101 108) = 101"
    "bar_high (sample_bar 1 98 105 95 101) = 105"
    by (simp_all add: sample_bar_def)
  have sell: "fst (fill_order sample_fill_config (sample_limit_order Sell 100)
      (sample_bar 1 98 105 95 101)) \<noteq> None"
    using limit_order_fills_iff [OF a1 a2, of Sell sample_fill_config
        "sample_bar 1 98 105 95 101"]
    by (simp add: sides bars)
  show ?thesis
    using
      limit_order_fills_iff [OF a1 a2, of Buy sample_fill_config "sample_bar 1 102 105 95 101"]
      limit_order_fills_iff [OF a1 a2, of Buy sample_fill_config "sample_bar 2 103 110 101 108"]
      limit_order_fills_iff [OF a1 a2, of Sell sample_fill_config "sample_bar 1 98 105 95 101"]
      sell
    by (auto simp: a1 a2 sides bars)
qed

subsection \<open>Realized profit and loss\<close>


lemma apply_fill_average_entry:
  assumes "apply_fill lc l f = Inr l'"
    and "map_of (open_positions l) (fill_symbol f) = Some held"
    and "opening_side (fill_side f) = position_side held"
  shows "map_of (open_positions l') (fill_symbol f)
           = Some (held\<lparr>position_quantity := position_quantity held + fill_quantity f,
                        entry_price :=
                          (entry_price held * position_quantity held
                             + fill_price f * fill_quantity f)
                            / (position_quantity held + fill_quantity f)\<rparr>)"
proof -
  have "(fill_symbol f, held) \<in> set (open_positions l)"
    using assms(2) by (rule map_of_SomeD)
  then have present: "list_ex (\<lambda>sp. fst sp = fill_symbol f) (open_positions l)"
    unfolding list_ex_iff by (rule bexI [rotated]) simp
  have upd: "map_of (map (\<lambda>sp. if fst sp = k then (k, v) else sp) ps) k = Some v"
    if "map_of ps k = Some w" for ps :: "(string \<times> position) list" and k v w
    using that by (induction ps) (auto split: if_splits)
  show ?thesis
    using assms present upd [OF assms(2)]
    by (auto simp: apply_fill_def update_position_def set_position_def recompute_equity_def
        Let_def split: if_splits)
qed



end
